theory Spec2Isabelle
  imports Complex_Main "HOL-Library.Sublist"
begin

section \<open>The chat page of \<^verbatim>\<open>app_api.py\<close>: mode registry, fallback dispatcher, transcript\<close>

text \<open>
  The development embeds three parts of \<^verbatim>\<open>src/app_api.py\<close>:
  \<^item> the dictionary \<^verbatim>\<open>MODE_PROMPTS\<close> (lines 59-76) and the subscript \<^verbatim>\<open>MODE_PROMPTS[mode]\<close>;
  \<^item> the function \<^verbatim>\<open>get_response\<close> (lines 78-119), the dispatcher of the specification;
  \<^item> what one run of the page script does to \<^verbatim>\<open>st.session_state.messages\<close>
    (lines 41-45, 125-127, 146-148, 159-172).

  Conventions.
  \<^item> A Python \<^verbatim>\<open>str\<close> is a \<^typ>\<open>string\<close> holding its UTF-8 bytes; a character outside
    ASCII is written byte by byte (\<^verbatim>\<open>CHR 0xE2\<close> ...). The substrings the code searches for are
    ASCII, and an ASCII byte never occurs inside the encoding of another character, so
    searching the bytes is searching the text.
  \<^item> An exception is a value of type \<open>exn\<close>; a computation that may raise returns
    \<open>exn + 'a\<close>, with \<open>Inl\<close> the exception raised.
  \<^item> Python's \<^verbatim>\<open>None\<close> is \<open>None\<close> of an option type.
\<close>

subsection \<open>Strings\<close>

text \<open>
  \<^verbatim>\<open>needle in hay\<close> on two strings: \<open>needle\<close> occurs in \<open>hay\<close> as a contiguous block.
\<close>

fun str_in :: "string \<Rightarrow> string \<Rightarrow> bool" where
  "str_in needle [] = (needle = [])"
| "str_in needle (c # cs) = (prefix needle (c # cs) \<or> str_in needle cs)"

text \<open>
  \<^verbatim>\<open>s.lower()\<close>. The model lowers the ASCII letters \<^verbatim>\<open>A-Z\<close> and leaves every other byte as it
  is. Python also lowers letters outside ASCII; the result of \<^verbatim>\<open>lower()\<close> is only ever
  searched for \<^verbatim>\<open>"authentication"\<close> and \<^verbatim>\<open>"unauthorized"\<close>, and the only characters outside
  ASCII whose lower case holds an ASCII letter are U+212A (which gives \<^verbatim>\<open>k\<close>, a letter of
  neither word) and U+0130 (which gives \<^verbatim>\<open>i\<close> followed by U+0307, where both words need
  another letter), so the two searches have the same answer in the model and in Python.
\<close>

definition lower_char :: "char \<Rightarrow> char" where
  "lower_char c =
     (let n = (of_char c :: nat)
      in if 65 \<le> n \<and> n \<le> 90 then char_of (n + 32) else c)"

definition lower :: "string \<Rightarrow> string" where
  "lower s = map lower_char s"

text \<open>
  The characters of a string: each is the list of its bytes, one byte for an ASCII
  character and two to four bytes, counted by the first, for any other. \<open>code_point\<close>
  is the number of the character. A list of bytes that is not the UTF-8 encoding of a
  string is no Python string.
\<close>

definition utf8_width :: "char \<Rightarrow> nat" where
  "utf8_width b =
     (let n = (of_char b :: nat)
      in if n < 0xC0 then 1 else if n < 0xE0 then 2 else if n < 0xF0 then 3 else 4)"

fun characters :: "string \<Rightarrow> string list" where
  "characters [] = []"
| "characters (b # bs) =
     (b # take (utf8_width b - 1) bs) # characters (drop (utf8_width b - 1) bs)"

definition code_point :: "string \<Rightarrow> nat" where
  "code_point ch =
     (case map of_char ch of
        [a] \<Rightarrow> a
      | [a, b] \<Rightarrow> (a mod 32) * 64 + b mod 64
      | [a, b, c] \<Rightarrow> (a mod 16) * 4096 + (b mod 64) * 64 + c mod 64
      | [a, b, c, d] \<Rightarrow> (a mod 8) * 262144 + (b mod 64) * 4096 + (c mod 64) * 64 + d mod 64
      | _ \<Rightarrow> 0)"

text \<open>
  \<^verbatim>\<open>repr(s)\<close> of a string, which is what \<^verbatim>\<open>str(KeyError(s))\<close> returns. The string is put in
  single quotes, or in double quotes when it holds a single quote and no double quote;
  the quote character and the backslash are escaped by a backslash; tab, newline and
  carriage return become \<^verbatim>\<open>\t\<close>, \<^verbatim>\<open>\n\<close>, \<^verbatim>\<open>\r\<close>; the other control characters below
  \<^verbatim>\<open>0x20\<close> and \<^verbatim>\<open>0x7f\<close> become \<^verbatim>\<open>\xNN\<close>; the other ASCII characters are copied. A character
  outside ASCII is copied if it is printable and otherwise written as \<^verbatim>\<open>\xNN\<close>, \<^verbatim>\<open>\uNNNN\<close> or
  \<^verbatim>\<open>\UNNNNNNNN\<close>, by the size of its number, with lower-case hexadecimal digits.

  Which characters are printable is decided by the Unicode table of the Python
  interpreter (\<^verbatim>\<open>str.isprintable\<close>), which is not part of the repository and differs from
  one version of Python to the next. The table is the parameter \<open>isprintable\<close>, a
  predicate on the numbers of the characters; it is only ever asked about characters
  outside ASCII.
\<close>

definition hexdigit :: "nat \<Rightarrow> char" where
  "hexdigit n = ''0123456789abcdef'' ! (n mod 16)"

definition hex2 :: "nat \<Rightarrow> string" where
  "hex2 n = [hexdigit (n div 16), hexdigit n]"

definition hex4 :: "nat \<Rightarrow> string" where
  "hex4 n = hex2 (n div 256) @ hex2 n"

definition hex8 :: "nat \<Rightarrow> string" where
  "hex8 n = hex4 (n div 65536) @ hex4 n"

definition repr_char :: "(nat \<Rightarrow> bool) \<Rightarrow> char \<Rightarrow> string \<Rightarrow> string" where
  "repr_char isprintable quote ch =
     (let n = code_point ch
      in if ch = [quote] \<or> ch = [CHR 0x5C] then CHR 0x5C # ch
         else if ch = [CHR 0x09] then [CHR 0x5C, CHR ''t'']
         else if ch = [CHR 0x0A] then [CHR 0x5C, CHR ''n'']
         else if ch = [CHR 0x0D] then [CHR 0x5C, CHR ''r'']
         else if n < 32 \<or> n = 127 then [CHR 0x5C, CHR ''x''] @ hex2 n
         else if n < 127 then ch
         else if isprintable n then ch
         else if n < 256 then [CHR 0x5C, CHR ''x''] @ hex2 n
         else if n < 65536 then [CHR 0x5C, CHR ''u''] @ hex4 n
         else [CHR 0x5C, CHR ''U''] @ hex8 n)"

definition py_repr :: "(nat \<Rightarrow> bool) \<Rightarrow> string \<Rightarrow> string" where
  "py_repr isprintable s =
     (let quote = (if CHR 0x27 \<in> set s \<and> CHR 0x22 \<notin> set s then CHR 0x22 else CHR 0x27)
      in quote # concat (map (repr_char isprintable quote) (characters s)) @ [quote])"

subsection \<open>Exceptions\<close>

text \<open>
  The exceptions of the model are instances of \<^verbatim>\<open>Exception\<close>, the class both handlers of
  \<^verbatim>\<open>get_response\<close> catch: the \<^verbatim>\<open>KeyError\<close> of a dictionary subscript, the \<^verbatim>\<open>IndexError\<close> of a
  list subscript, and whatever error the client library raises, of which the code only
  ever reads \<^verbatim>\<open>str(e)\<close>. Interpreter exits (\<^verbatim>\<open>KeyboardInterrupt\<close>, \<^verbatim>\<open>SystemExit\<close>), which are not
  instances of \<^verbatim>\<open>Exception\<close>, are not failures of a request and are outside the model.
\<close>

datatype exn =
    KeyError string   \<comment> \<open>the key that is missing\<close>
  | IndexError
  | Exception string  \<comment> \<open>an error raised by the client, with its \<^verbatim>\<open>str(e)\<close>\<close>

text \<open>\<^verbatim>\<open>str(e)\<close>, in an interpreter with the table \<open>isprintable\<close>.\<close>

fun str :: "(nat \<Rightarrow> bool) \<Rightarrow> exn \<Rightarrow> string" where
  "str isprintable (KeyError k) = py_repr isprintable k"
| "str isprintable IndexError = ''list index out of range''"
| "str isprintable (Exception msg) = msg"

subsection \<open>The mode registry\<close>

record mode_config =
  system_prompt :: string
  icon :: string

definition MODE_PROMPTS :: "string \<rightharpoonup> mode_config" where
  "MODE_PROMPTS =
     [''General Chat'' \<mapsto>
        \<lparr>system_prompt = ''You are a helpful and friendly English learning assistant. Help the user with their questions in a clear and engaging way.'',
         icon = [CHR 0xF0, CHR 0x9F, CHR 0x92, CHR 0xAC]\<rparr>,
      ''Grammar Checker'' \<mapsto>
        \<lparr>system_prompt = ''You are an expert English grammar teacher. Analyze the user's text for grammar errors, explain the mistakes, and provide corrected versions with clear explanations.'',
         icon = [CHR 0xE2, CHR 0x9C, CHR 0x8F, CHR 0xEF, CHR 0xB8, CHR 0x8F]\<rparr>,
      ''Paragraph Writer'' \<mapsto>
        \<lparr>system_prompt = ''You are a creative writing assistant. Help users write well-structured, coherent paragraphs on various topics. Provide multiple style options (formal, casual, academic) when appropriate.'',
         icon = [CHR 0xF0, CHR 0x9F, CHR 0x93, CHR 0x9D]\<rparr>,
      ''Python Helper'' \<mapsto>
        \<lparr>system_prompt = ''You are a Python programming tutor. Help users understand Python concepts, debug code, write better code, and follow best practices. Provide clear explanations with examples.'',
         icon = [CHR 0xF0, CHR 0x9F, CHR 0x90, CHR 0x8D]\<rparr>]"

text \<open>The subscript \<^verbatim>\<open>MODE_PROMPTS[mode]\<close>: a missing key raises \<^verbatim>\<open>KeyError(mode)\<close>.\<close>

definition lookup_mode :: "string \<Rightarrow> exn + mode_config" where
  "lookup_mode mode =
     (case MODE_PROMPTS mode of
        None \<Rightarrow> Inl (KeyError mode)
      | Some config \<Rightarrow> Inr config)"

subsection \<open>Requests, completions and the client\<close>

text \<open>
  A dictionary \<^verbatim>\<open>{"role": ..., "content": ...}\<close>, or the message of a reply, which has the
  same two parts. The content of a request message is a string; the content of a reply,
  and with it the content of a turn of the transcript, is a string or \<^verbatim>\<open>None\<close>, hence the
  type parameter.
\<close>

record 'a chat_message =
  role :: string
  content :: 'a

text \<open>
  The keyword arguments of \<^verbatim>\<open>client.chat.completions.create\<close>. The two float literals
  \<^verbatim>\<open>0.7\<close> and \<^verbatim>\<open>0.9\<close> are passed on untouched; they are modelled as the decimal numbers written
  in the source.
\<close>

record request =
  model :: string
  messages :: "string chat_message list"
  max_tokens :: int
  temperature :: real
  top_p :: real

text \<open>
  Modelled from the spec: the response type of the client library (\<^verbatim>\<open>huggingface_hub\<close>), which
  is not part of the repository: ``an object exposing at least one choice whose message
  content is a string''. The code reads \<^verbatim>\<open>completion.choices[0].message.content\<close> and
  checks neither part of that expectation, so the model has both ways of not meeting it:
  the list of choices may be empty, and then the subscript raises \<^verbatim>\<open>IndexError\<close>; the
  content may be \<^verbatim>\<open>None\<close>, a reply without text, and then \<^verbatim>\<open>None\<close> is what the code reads.
\<close>

datatype choice = Choice (message: "string option chat_message")

datatype completion = Completion (choices: "choice list")

datatype outcome = Returns completion | Raises exn

text \<open>
  The client, \<^verbatim>\<open>st.session_state.client\<close>, is an object with a state of its own in front of
  a remote service. Its behaviour is a function of the requests it has received so far
  (oldest first) and of the request it is given; the dispatcher extends the list by every
  request it issues. Nothing is assumed about the function, so a theorem about every
  client covers every way the service may answer a sequence of requests.
\<close>

type_synonym client = "request list \<Rightarrow> request \<Rightarrow> outcome"

subsection \<open>The dispatcher \<^verbatim>\<open>get_response\<close>\<close>

definition models_to_try :: "string list" where
  "models_to_try =
     [''Qwen/Qwen2.5-1.5B-Instruct'',
      ''mistralai/Mistral-7B-Instruct-v0.3'',
      ''meta-llama/Llama-3.2-3B-Instruct'',
      ''google/gemma-2-2b-it'']"

text \<open>The request of lines 93-102 for one model.\<close>

definition create_request :: "string \<Rightarrow> string \<Rightarrow> string \<Rightarrow> request" where
  "create_request sys_prompt user_input model_name =
     \<lparr>model = model_name,
      messages = [\<lparr>role = ''system'', content = sys_prompt\<rparr>,
                  \<lparr>role = ''user'', content = user_input\<rparr>],
      max_tokens = 512,
      temperature = 0.7,
      top_p = 0.9\<rparr>"

text \<open>
  The body of the inner \<^verbatim>\<open>try\<close> (lines 93-105), given what the call did: the call raises, or
  \<^verbatim>\<open>choices[0]\<close> raises, or the content of the first choice is returned, be it a string
  or \<^verbatim>\<open>None\<close>.
\<close>

definition attempt :: "outcome \<Rightarrow> exn + string option" where
  "attempt result =
     (case result of
        Raises model_error \<Rightarrow> Inl model_error
      | Returns completion \<Rightarrow>
          (case choices completion of
             [] \<Rightarrow> Inl IndexError
           | first # _ \<Rightarrow> Inr (content (message first))))"

text \<open>
  The \<^verbatim>\<open>for\<close> loop of lines 91-110 over the models still to try. \<open>last_model\<close> is
  \<^verbatim>\<open>models_to_try[-1]\<close>, with which the handler compares the model that failed, and
  \<open>sent\<close> is the list of requests the client has received. The result is the exception
  that leaves the loop, or the value returned; with it comes the list of requests,
  extended. When the loop ends without a return the function falls off its end, which in
  Python returns \<^verbatim>\<open>None\<close>.
\<close>

fun try_models ::
  "client \<Rightarrow> string \<Rightarrow> string \<Rightarrow> string \<Rightarrow> string list \<Rightarrow> request list
     \<Rightarrow> (exn + string option) \<times> request list" where
  "try_models create sys_prompt user_input last_model [] sent = (Inr None, sent)"
| "try_models create sys_prompt user_input last_model (model_name # rest) sent =
     (let req = create_request sys_prompt user_input model_name
      in case attempt (create sent req) of
           Inr response \<Rightarrow> (Inr response, sent @ [req])
         | Inl model_error \<Rightarrow>
             if model_name \<noteq> last_model
             then try_models create sys_prompt user_input last_model rest (sent @ [req])
             else (Inl model_error, sent @ [req]))"

text \<open>The body of the outer \<^verbatim>\<open>try\<close> (lines 81-110).\<close>

definition try_body ::
  "client \<Rightarrow> request list \<Rightarrow> string \<Rightarrow> string \<Rightarrow> (exn + string option) \<times> request list" where
  "try_body create sent user_input mode =
     (case lookup_mode mode of
        Inl key_error \<Rightarrow> (Inl key_error, sent)
      | Inr config \<Rightarrow>
          try_models create (system_prompt config) user_input (last models_to_try)
            models_to_try sent)"

definition warming_up_message :: string where
  "warming_up_message =
     [CHR 0xE2, CHR 0x9A, CHR 0xA0, CHR 0xEF, CHR 0xB8, CHR 0x8F] @
     '' The model is warming up. Please wait a moment and try again. This happens when the model hasn't been used recently on the HuggingFace servers.\<newline>\<newline>**Tip:** Try clicking your message again in a few seconds.''"

definition authentication_error_message :: string where
  "authentication_error_message =
     [CHR 0xE2, CHR 0x9D, CHR 0x8C] @
     '' Authentication error. Please check your HF_TOKEN in the .env file.''"

text \<open>The handler of the outer \<^verbatim>\<open>except Exception as e\<close> (lines 112-119).\<close>

definition handle_error :: "(nat \<Rightarrow> bool) \<Rightarrow> exn \<Rightarrow> string" where
  "handle_error isprintable e =
     (let error_msg = str isprintable e
      in if str_in ''model_pending_deploy'' error_msg \<or> str_in ''not ready for inference'' error_msg
         then warming_up_message
         else if str_in ''authentication'' (lower error_msg) \<or> str_in ''unauthorized'' (lower error_msg)
         then authentication_error_message
         else ''Error generating response: '' @ str isprintable e)"

text \<open>
  \<^verbatim>\<open>get_response(user_input, mode)\<close>, in an interpreter with the table \<open>isprintable\<close> and
  on a client that has received the requests \<open>sent\<close>. The first component is what the call does: \<open>Inl e\<close> if the exception \<open>e\<close> reaches the
  caller, \<open>Inr (Some text)\<close> if it returns the string \<open>text\<close>, \<open>Inr None\<close> if it returns
  \<^verbatim>\<open>None\<close>. The second component is the list of requests the client has received
  afterwards.
\<close>

definition get_response ::
  "(nat \<Rightarrow> bool) \<Rightarrow> client \<Rightarrow> request list \<Rightarrow> string \<Rightarrow> string
     \<Rightarrow> (exn + string option) \<times> request list" where
  "get_response isprintable create sent user_input mode =
     (case try_body create sent user_input mode of
        (Inl e, sent') \<Rightarrow> (Inr (Some (handle_error isprintable e)), sent')
      | (Inr returned, sent') \<Rightarrow> (Inr returned, sent'))"

subsection \<open>The page script and the transcript\<close>

text \<open>
  The part of \<^verbatim>\<open>st.session_state\<close> the script reads and writes. \<open>st_messages\<close> is
  \<^verbatim>\<open>st.session_state.messages\<close>, the transcript; \<open>st_current_mode\<close> is
  \<^verbatim>\<open>st.session_state.current_mode\<close>; \<open>st_client\<close> stands for \<^verbatim>\<open>st.session_state.client\<close> and
  holds the requests that client has received.
\<close>

record session_state =
  st_messages :: "string option chat_message list"
  st_current_mode :: string
  st_client :: "request list"

text \<open>Lines 41-45, on a client that has received the requests \<open>sent\<close>.\<close>

definition initial_session :: "request list \<Rightarrow> session_state" where
  "initial_session sent =
     \<lparr>st_messages = [], st_current_mode = ''General Chat'', st_client = sent\<rparr>"

text \<open>
  Streamlit runs the script from top to bottom once for every interaction of the user
  with a widget: a click on the sidebar button of a mode (line 126; the loop of line 125
  makes a button for the keys of \<^verbatim>\<open>MODE_PROMPTS\<close> and for nothing else), a click on
  \<^verbatim>\<open>Clear Chat\<close> (line 146), or what \<^verbatim>\<open>st.chat_input\<close> returns (line 159): a submitted
  prompt, or \<^verbatim>\<open>None\<close>.
\<close>

datatype interaction =
    Mode_button string
  | Clear_chat
  | Chat_input "string option"

text \<open>
  One run of the script. The walrus condition of line 159 is false for \<^verbatim>\<open>None\<close> and for the
  empty string. If \<^verbatim>\<open>get_response\<close> raised, the run would end at line 168 with the user turn
  appended and nothing more.
\<close>

definition script_run ::
  "(nat \<Rightarrow> bool) \<Rightarrow> client \<Rightarrow> interaction \<Rightarrow> session_state \<Rightarrow> session_state" where
  "script_run isprintable create action s =
     (case action of
        Mode_button mode_name \<Rightarrow>
          (case MODE_PROMPTS mode_name of
             None \<Rightarrow> s
           | Some mode_config \<Rightarrow> s\<lparr>st_current_mode := mode_name\<rparr>)
      | Clear_chat \<Rightarrow> s\<lparr>st_messages := []\<rparr>
      | Chat_input None \<Rightarrow> s
      | Chat_input (Some prompt) \<Rightarrow>
          if prompt = [] then s
          else
            (let s1 = s\<lparr>st_messages := st_messages s @ [\<lparr>role = ''user'', content = Some prompt\<rparr>]\<rparr>
             in case get_response isprintable create (st_client s1) prompt (st_current_mode s1) of
                  (Inl e, sent') \<Rightarrow> s1\<lparr>st_client := sent'\<rparr>
                | (Inr response, sent') \<Rightarrow>
                    s1\<lparr>st_messages := st_messages s1 @ [\<lparr>role = ''assistant'', content = response\<rparr>],
                       st_client := sent'\<rparr>))"

text \<open>The runs of the script for a sequence of interactions, in the order they happen.\<close>

fun script_runs ::
  "(nat \<Rightarrow> bool) \<Rightarrow> client \<Rightarrow> interaction list \<Rightarrow> session_state \<Rightarrow> session_state" where
  "script_runs isprintable create [] s = s"
| "script_runs isprintable create (action # actions) s =
     script_runs isprintable create actions (script_run isprintable create action s)"

text \<open>
  Two readings of a sequence of interactions, used to state what the transcript holds:
  the interactions after the last \<^verbatim>\<open>Clear Chat\<close>, and the prompts submitted, in order.
\<close>

fun since_clear :: "interaction list \<Rightarrow> interaction list" where
  "since_clear [] = []"
| "since_clear (action # actions) =
     (if Clear_chat \<in> set actions then since_clear actions else
      if action = Clear_chat then actions else action # actions)"

fun submitted :: "interaction list \<Rightarrow> string list" where
  "submitted [] = []"
| "submitted (Chat_input (Some prompt) # actions) =
     (if prompt = [] then submitted actions else prompt # submitted actions)"
| "submitted (action # actions) = submitted actions"

subsection \<open>A table and clients used as examples\<close>

text \<open>
  The table of Python for the characters up to U+0377: outside ASCII, those from U+0080
  to U+00A0 and U+00AD are not printable and the others are. Beyond U+0377 the example
  calls every character printable, which no table of Python does.
\<close>

definition example_isprintable :: "nat \<Rightarrow> bool" where
  "example_isprintable n = (160 < n \<and> n \<noteq> 173)"

text \<open>A service that refuses every request with the same error.\<close>

definition refusing :: "string \<Rightarrow> client" where
  "refusing msg sent req = Raises (Exception msg)"

text \<open>
  A service on which the first \<open>n\<close> requests find their model cold, and every later
  request is answered with \<open>text\<close>.
\<close>

definition cold_for :: "nat \<Rightarrow> string \<Rightarrow> client" where
  "cold_for n text sent req =
     (if length sent < n then Raises (Exception ''model_pending_deploy'')
      else Returns (Completion [Choice \<lparr>role = ''assistant'', content = Some text\<rparr>]))"

text \<open>A service that answers every request with a reply that has no text.\<close>

definition without_content :: client where
  "without_content sent req = Returns (Completion [Choice \<lparr>role = ''assistant'', content = None\<rparr>])"

section \<open>Properties\<close>

subsection \<open>Searching strings\<close>

text \<open>
  \<open>str_in\<close> is the search for a contiguous block, and a search in \<open>lower hay\<close> finds
  the words of \<open>hay\<close> whose letters, lowered, give the needle.
\<close>

lemma str_in_iff: "str_in needle hay \<longleftrightarrow> (\<exists>before after. hay = before @ needle @ after)"
proof (induction hay)
  case Nil
  then show ?case by simp
next
  case (Cons c cs)
  show ?case
  proof
    assume "str_in needle (c # cs)"
    then consider "prefix needle (c # cs)" | "str_in needle cs" by auto
    then show "\<exists>before after. c # cs = before @ needle @ after"
    proof cases
      case 1
      then obtain after where "c # cs = needle @ after" by (auto simp: prefix_def)
      then have "c # cs = [] @ needle @ after" by simp
      then show ?thesis by blast
    next
      case 2
      with Cons.IH obtain before after where "cs = before @ needle @ after" by blast
      then have "c # cs = (c # before) @ needle @ after" by simp
      then show ?thesis by blast
    qed
  next
    assume "\<exists>before after. c # cs = before @ needle @ after"
    then obtain before after where eq: "c # cs = before @ needle @ after" by blast
    show "str_in needle (c # cs)"
    proof (cases before)
      case Nil
      with eq have "prefix needle (c # cs)" by (simp add: prefix_def)
      then show ?thesis by simp
    next
      case (Cons b bs)
      with eq have "cs = bs @ needle @ after" by simp
      with Cons.IH have "str_in needle cs" by blast
      then show ?thesis by simp
    qed
  qed
qed

lemma lower_append: "lower (a @ b) = lower a @ lower b"
  by (simp add: lower_def)

lemma str_in_lower_iff:
  "str_in needle (lower hay) \<longleftrightarrow> (\<exists>before word after. hay = before @ word @ after \<and> lower word = needle)"
proof
  assume "str_in needle (lower hay)"
  then obtain b a where "map lower_char hay = b @ needle @ a"
    by (auto simp: str_in_iff lower_def)
  then have "\<exists>before rest. hay = before @ rest \<and> map lower_char rest = needle @ a"
    by (metis map_eq_append_conv)
  then obtain before rest where h1: "hay = before @ rest" and h2: "map lower_char rest = needle @ a"
    by blast
  from h2 have "\<exists>word after. rest = word @ after \<and> map lower_char word = needle"
    by (metis map_eq_append_conv)
  then obtain word after where "rest = word @ after" and "map lower_char word = needle"
    by blast
  with h1 show "\<exists>before word after. hay = before @ word @ after \<and> lower word = needle"
    by (auto simp: lower_def)
next
  assume "\<exists>before word after. hay = before @ word @ after \<and> lower word = needle"
  then show "str_in needle (lower hay)"
    by (metis str_in_iff lower_append)
qed


subsection \<open>The loop over the models\<close>

lemma distinct_models_to_try: "distinct models_to_try"
  by (simp add: models_to_try_def)

lemma length_models_to_try: "length models_to_try = 4"
  by (simp add: models_to_try_def)

lemma nth_neq_last:
  assumes "distinct ms" and "i < length ms - 1"
  shows "ms ! i \<noteq> last ms"
proof -
  from assms(2) have ne: "ms \<noteq> []" by auto
  then have "last ms = ms ! (length ms - 1)" by (rule last_conv_nth)
  moreover from assms have "ms ! i \<noteq> ms ! (length ms - 1)"
    by (simp add: nth_eq_iff_index_eq)
  ultimately show ?thesis by simp
qed

lemma try_models_success:
  assumes "n < length ms"
    and "\<forall>i<n. ms ! i \<noteq> lm"
    and "\<forall>i<n. \<exists>e. attempt (create (sent @ map (create_request sp ui) (take i ms))
                               (create_request sp ui (ms ! i))) = Inl e"
    and "attempt (create (sent @ map (create_request sp ui) (take n ms))
                   (create_request sp ui (ms ! n))) = Inr text"
  shows "try_models create sp ui lm ms sent
           = (Inr text, sent @ map (create_request sp ui) (take (Suc n) ms))"
  using assms
proof (induction ms arbitrary: n sent)
  case Nil
  then show ?case by simp
next
  case (Cons m rest)
  show ?case
  proof (cases n)
    case 0
    with Cons.prems(4) show ?thesis by simp
  next
    case (Suc k)
    from Cons.prems(3) Suc obtain e where e: "attempt (create sent (create_request sp ui m)) = Inl e"
      by fastforce
    from Cons.prems(2) Suc have m: "m \<noteq> lm" by fastforce
    have k: "k < length rest" using Cons.prems(1) Suc by simp
    have neq: "\<forall>i<k. rest ! i \<noteq> lm"
    proof (intro allI impI)
      fix i assume "i < k"
      then have "Suc i < n" using Suc by simp
      with Cons.prems(2) have "(m # rest) ! Suc i \<noteq> lm" by blast
      then show "rest ! i \<noteq> lm" by simp
    qed
    have fails: "\<forall>i<k. \<exists>e. attempt (create ((sent @ [create_request sp ui m]) @ map (create_request sp ui) (take i rest))
                               (create_request sp ui (rest ! i))) = Inl e"
    proof (intro allI impI)
      fix i assume "i < k"
      then have "Suc i < n" using Suc by simp
      with Cons.prems(3) obtain e' where
        "attempt (create (sent @ map (create_request sp ui) (take (Suc i) (m # rest)))
                   (create_request sp ui ((m # rest) ! Suc i))) = Inl e'" by blast
      then show "\<exists>e. attempt (create ((sent @ [create_request sp ui m]) @ map (create_request sp ui) (take i rest))
                               (create_request sp ui (rest ! i))) = Inl e" by simp
    qed
    have ok: "attempt (create ((sent @ [create_request sp ui m]) @ map (create_request sp ui) (take k rest))
                   (create_request sp ui (rest ! k))) = Inr text"
      using Cons.prems(4) Suc by simp
    from Cons.IH [OF k neq fails ok] e m Suc show ?thesis by simp
  qed
qed

lemma try_models_failure:
  assumes "n < length ms"
    and "\<forall>i<n. ms ! i \<noteq> lm"
    and "ms ! n = lm"
    and "\<forall>i<n. \<exists>e. attempt (create (sent @ map (create_request sp ui) (take i ms))
                               (create_request sp ui (ms ! i))) = Inl e"
    and "attempt (create (sent @ map (create_request sp ui) (take n ms))
                   (create_request sp ui (ms ! n))) = Inl err"
  shows "try_models create sp ui lm ms sent
           = (Inl err, sent @ map (create_request sp ui) (take (Suc n) ms))"
  using assms
proof (induction ms arbitrary: n sent)
  case Nil
  then show ?case by simp
next
  case (Cons m rest)
  show ?case
  proof (cases n)
    case 0
    with Cons.prems(3,5) show ?thesis by simp
  next
    case (Suc k)
    from Cons.prems(4) Suc obtain e where e: "attempt (create sent (create_request sp ui m)) = Inl e"
      by fastforce
    from Cons.prems(2) Suc have m: "m \<noteq> lm" by fastforce
    have k: "k < length rest" using Cons.prems(1) Suc by simp
    have neq: "\<forall>i<k. rest ! i \<noteq> lm"
    proof (intro allI impI)
      fix i assume "i < k"
      then have "Suc i < n" using Suc by simp
      with Cons.prems(2) have "(m # rest) ! Suc i \<noteq> lm" by blast
      then show "rest ! i \<noteq> lm" by simp
    qed
    have lst: "rest ! k = lm" using Cons.prems(3) Suc by simp
    have fails: "\<forall>i<k. \<exists>e. attempt (create ((sent @ [create_request sp ui m]) @ map (create_request sp ui) (take i rest))
                               (create_request sp ui (rest ! i))) = Inl e"
    proof (intro allI impI)
      fix i assume "i < k"
      then have "Suc i < n" using Suc by simp
      with Cons.prems(4) obtain e' where
        "attempt (create (sent @ map (create_request sp ui) (take (Suc i) (m # rest)))
                   (create_request sp ui ((m # rest) ! Suc i))) = Inl e'" by blast
      then show "\<exists>e. attempt (create ((sent @ [create_request sp ui m]) @ map (create_request sp ui) (take i rest))
                               (create_request sp ui (rest ! i))) = Inl e" by simp
    qed
    have bad: "attempt (create ((sent @ [create_request sp ui m]) @ map (create_request sp ui) (take k rest))
                   (create_request sp ui (rest ! k))) = Inl err"
      using Cons.prems(5) Suc by simp
    from Cons.IH [OF k neq lst fails bad] e m Suc show ?thesis by simp
  qed
qed

lemma try_models_sent:
  assumes "ms \<noteq> []"
  shows "\<exists>k. 1 \<le> k \<and> k \<le> length ms \<and>
           snd (try_models create sp ui lm ms sent) = sent @ map (create_request sp ui) (take k ms)"
  using assms
proof (induction ms arbitrary: sent)
  case Nil
  then show ?case by simp
next
  case (Cons m rest)
  let ?r = "create_request sp ui m"
  have one: "sent @ [?r] = sent @ map (create_request sp ui) (take 1 (m # rest))"
    by simp
  show ?case
  proof (cases "rest \<noteq> [] \<and> m \<noteq> lm \<and> (\<exists>e. attempt (create sent ?r) = Inl e)")
    case True
    then have step: "try_models create sp ui lm (m # rest) sent = try_models create sp ui lm rest (sent @ [?r])"
      by auto
    from True Cons.IH [of "sent @ [?r]"] obtain k where
      k: "1 \<le> k" "k \<le> length rest"
      "snd (try_models create sp ui lm rest (sent @ [?r])) = (sent @ [?r]) @ map (create_request sp ui) (take k rest)"
      by blast
    from k show ?thesis unfolding step by (intro exI [of _ "Suc k"]) simp
  next
    case False
    have "snd (try_models create sp ui lm (m # rest) sent) = sent @ [?r]"
    proof (cases "attempt (create sent ?r)")
      case (Inr response)
      then show ?thesis by simp
    next
      case (Inl e)
      with False have "rest = [] \<or> m = lm" by blast
      with Inl show ?thesis by (auto simp: Let_def)
    qed
    with one show ?thesis by (intro exI [of _ 1]) simp
  qed
qed

text \<open>
  A client answers in text if the first choice of every completion it returns has a
  string as its content. On such a client the loop never gives \<^verbatim>\<open>None\<close>, provided the list
  of models is not empty and ends with the model the handler compares with.
\<close>

lemma attempt_text:
  assumes "\<forall>sent req completion first rest.
             create sent req = Returns completion \<longrightarrow> choices completion = first # rest
             \<longrightarrow> content (message first) \<noteq> None"
  shows "attempt (create sent req) \<noteq> Inr None"
proof (cases "create sent req")
  case (Raises e)
  then show ?thesis by (simp add: attempt_def)
next
  case (Returns completion)
  show ?thesis
  proof (cases "choices completion")
    case Nil
    with Returns show ?thesis by (simp add: attempt_def)
  next
    case (Cons first rest)
    with Returns assms have "content (message first) \<noteq> None" by blast
    with Returns Cons show ?thesis by (simp add: attempt_def)
  qed
qed

lemma try_models_not_None:
  assumes answers: "\<And>sent req. attempt (create sent req) \<noteq> Inr None"
    and "ms \<noteq> []" and "last ms = lm"
  shows "fst (try_models create sp ui lm ms sent) \<noteq> Inr None"
  using assms(2,3)
proof (induction ms arbitrary: sent)
  case Nil
  then show ?case by simp
next
  case (Cons m rest)
  let ?r = "create_request sp ui m"
  show ?case
  proof (cases "attempt (create sent ?r)")
    case (Inr response)
    with answers [of sent ?r] show ?thesis by simp
  next
    case (Inl e)
    show ?thesis
    proof (cases "m = lm")
      case True
      with Inl show ?thesis by simp
    next
      case False
      with Cons.prems have rest: "rest \<noteq> []" "last rest = lm" by (auto split: if_splits)
      from Inl False have "try_models create sp ui lm (m # rest) sent = try_models create sp ui lm rest (sent @ [?r])"
        by simp
      with Cons.IH [OF rest, of "sent @ [?r]"] show ?thesis by simp
    qed
  qed
qed

subsection \<open>The two ways into the handler\<close>

lemma try_body_known:
  "MODE_PROMPTS mode = Some config \<Longrightarrow>
   try_body create sent user_input mode =
     try_models create (system_prompt config) user_input (last models_to_try) models_to_try sent"
  by (simp add: try_body_def lookup_mode_def)

lemma try_body_unknown:
  "MODE_PROMPTS mode = None \<Longrightarrow> try_body create sent user_input mode = (Inl (KeyError mode), sent)"
  by (simp add: try_body_def lookup_mode_def)

lemma earlier_model_not_last:
  "i < n \<Longrightarrow> n < length models_to_try \<Longrightarrow> models_to_try ! i \<noteq> last models_to_try"
  by (rule nth_neq_last [OF distinct_models_to_try]) simp

lemma attempt_Returns:
  "choices completion \<noteq> [] \<Longrightarrow>
   attempt (Returns completion) = Inr (content (message (hd (choices completion))))"
  by (cases "choices completion") (simp_all add: attempt_def)

lemma MODE_PROMPTS_General_Chat:
  "MODE_PROMPTS ''General Chat'' = Some
     \<lparr>system_prompt = ''You are a helpful and friendly English learning assistant. Help the user with their questions in a clear and engaging way.'',
      icon = [CHR 0xF0, CHR 0x9F, CHR 0x92, CHR 0xAC]\<rparr>"
  by (simp add: MODE_PROMPTS_def)

subsection \<open>The first model that answers\<close>

text \<open>
  Claim C1. Let the mode be one of the registry and \<open>req\<close> the request of that mode and
  user text. If the attempts for the first \<open>n\<close> models of \<open>models_to_try\<close> fail (the call
  raises, or the completion has no choice) and the call for the next model returns a
  completion with a first choice, then \<open>get_response\<close> returns the content of that first
  choice, and the client has received the requests for the first \<open>n + 1\<close> models and no
  other. This holds for \<open>n = 0, 1, 2, 3\<close>; the errors of the failed attempts do not occur
  in the result.
\<close>

theorem first_success_returned:
  assumes known: "MODE_PROMPTS mode = Some config"
    and req: "req = create_request (system_prompt config) user_input"
    and n: "n < length models_to_try"
    and failed: "\<forall>i<n. \<exists>e. attempt (create (sent @ map req (take i models_to_try))
                                      (req (models_to_try ! i))) = Inl e"
    and returned: "create (sent @ map req (take n models_to_try)) (req (models_to_try ! n))
                     = Returns completion"
    and first: "choices completion \<noteq> []"
  shows "get_response isprintable create sent user_input mode =
           (Inr (content (message (hd (choices completion)))),
            sent @ map req (take (Suc n) models_to_try))"
proof -
  have neq: "\<forall>i<n. models_to_try ! i \<noteq> last models_to_try"
    using n by (simp add: earlier_model_not_last)
  have ok: "attempt (create (sent @ map (create_request (system_prompt config) user_input) (take n models_to_try))
                      (create_request (system_prompt config) user_input (models_to_try ! n)))
              = Inr (content (message (hd (choices completion))))"
    using returned first unfolding req by (simp add: attempt_Returns)
  have "try_models create (system_prompt config) user_input (last models_to_try) models_to_try sent
          = (Inr (content (message (hd (choices completion)))),
             sent @ map (create_request (system_prompt config) user_input) (take (Suc n) models_to_try))"
    using n neq failed [unfolded req] ok by (rule try_models_success)
  then show ?thesis
    unfolding req by (simp add: get_response_def try_body_known [OF known])
qed

theorem first_success_returned_witness:
  "get_response example_isprintable (cold_for 2 ''Hello'') [] ''hi'' ''General Chat'' =
     (Inr (Some ''Hello''),
      map (create_request (system_prompt (the (MODE_PROMPTS ''General Chat''))) ''hi'')
        [''Qwen/Qwen2.5-1.5B-Instruct'', ''mistralai/Mistral-7B-Instruct-v0.3'',
         ''meta-llama/Llama-3.2-3B-Instruct''])"
proof -
  let ?req = "create_request (system_prompt (the (MODE_PROMPTS ''General Chat''))) ''hi''"
  have known: "MODE_PROMPTS ''General Chat'' = Some (the (MODE_PROMPTS ''General Chat''))"
    by (simp add: MODE_PROMPTS_General_Chat)
  have n: "(2::nat) < length models_to_try"
    by (simp add: length_models_to_try)
  have failed: "\<forall>i<2. \<exists>e. attempt (cold_for 2 ''Hello'' ([] @ map ?req (take i models_to_try))
                                      (?req (models_to_try ! i))) = Inl e"
    by (simp add: cold_for_def attempt_def length_models_to_try)
  have returned: "cold_for 2 ''Hello'' ([] @ map ?req (take 2 models_to_try)) (?req (models_to_try ! 2))
                     = Returns (Completion [Choice \<lparr>role = ''assistant'', content = Some ''Hello''\<rparr>])"
    by (simp add: cold_for_def length_models_to_try)
  have first: "choices (Completion [Choice \<lparr>role = ''assistant'', content = Some ''Hello''\<rparr>]) \<noteq> []"
    by simp
  from first_success_returned [OF known refl n failed returned first]
  show ?thesis by (simp add: models_to_try_def)
qed

subsection \<open>What is returned\<close>

lemma get_response_Inr:
  "\<exists>returned sent'. get_response isprintable create sent user_input mode = (Inr returned, sent')"
  by (cases "try_body create sent user_input mode")
     (auto simp: get_response_def split: sum.splits)

lemma try_body_not_None:
  assumes "\<forall>sent req completion first rest.
             create sent req = Returns completion \<longrightarrow> choices completion = first # rest
             \<longrightarrow> content (message first) \<noteq> None"
  shows "fst (try_body create sent user_input mode) \<noteq> Inr None"
proof (cases "MODE_PROMPTS mode")
  case None
  then show ?thesis
    by (simp add: try_body_unknown)
next
  case (Some config)
  have "models_to_try \<noteq> []" by (simp add: models_to_try_def)
  with attempt_text [OF assms]
  have "fst (try_models create (system_prompt config) user_input (last models_to_try) models_to_try sent)
          \<noteq> Inr None" by (intro try_models_not_None) simp_all
  then show ?thesis
    by (simp add: try_body_known [OF Some])
qed

lemma get_response_text:
  assumes "\<forall>sent req completion first rest.
             create sent req = Returns completion \<longrightarrow> choices completion = first # rest
             \<longrightarrow> content (message first) \<noteq> None"
  shows "\<exists>answer sent'. get_response isprintable create sent user_input mode = (Inr (Some answer), sent')"
proof (cases "try_body create sent user_input mode")
  case (Pair outcome sent')
  show ?thesis
  proof (cases outcome)
    case (Inl e)
    with Pair show ?thesis by (simp add: get_response_def)
  next
    case (Inr returned)
    with Pair try_body_not_None [OF assms, of sent user_input mode]
    obtain answer where "returned = Some answer" by (cases returned) simp_all
    with Pair Inr show ?thesis by (simp add: get_response_def)
  qed
qed

lemma cold_for_text:
  "\<forall>sent req completion first rest.
     cold_for n answer sent req = Returns completion \<longrightarrow> choices completion = first # rest
     \<longrightarrow> content (message first) \<noteq> None"
  by (auto simp: cold_for_def split: if_splits)

text \<open>
  Claim C2 says that \<open>get_response\<close> returns a string for every behaviour of the client.
  It does not when a reply has no text: lines 104-105 return the content of the first
  choice as it is, so on a client whose replies have the content \<^verbatim>\<open>None\<close> the call returns
  \<^verbatim>\<open>None\<close>, after one request.
\<close>

theorem returns_None_counterexample:
  "get_response example_isprintable without_content [] ''hi'' ''General Chat'' =
     (Inr None,
      [create_request (system_prompt (the (MODE_PROMPTS ''General Chat''))) ''hi''
         ''Qwen/Qwen2.5-1.5B-Instruct''])"
  by (simp add: get_response_def try_body_known [OF MODE_PROMPTS_General_Chat]
        MODE_PROMPTS_General_Chat models_to_try_def without_content_def attempt_def)

text \<open>
  Claim C2, amended. For every user text, every mode name and every client, the client
  raising on every attempt included, no exception reaches the caller of \<open>get_response\<close>:
  the call returns. What it returns is a string whenever the client answers in text, that
  is, whenever the first choice of each completion the client returns has a string as its
  content.
\<close>

theorem returns_without_raising:
  "(\<exists>returned sent'. get_response isprintable create sent user_input mode = (Inr returned, sent'))
   \<and> ((\<forall>sent req completion first rest.
          create sent req = Returns completion \<longrightarrow> choices completion = first # rest
          \<longrightarrow> content (message first) \<noteq> None)
        \<longrightarrow> (\<exists>answer sent'.
               get_response isprintable create sent user_input mode = (Inr (Some answer), sent')))"
proof (intro conjI impI)
  show "\<exists>returned sent'. get_response isprintable create sent user_input mode = (Inr returned, sent')"
    by (rule get_response_Inr)
next
  assume "\<forall>sent req completion first rest.
          create sent req = Returns completion \<longrightarrow> choices completion = first # rest
          \<longrightarrow> content (message first) \<noteq> None"
  then show "\<exists>answer sent'.
               get_response isprintable create sent user_input mode = (Inr (Some answer), sent')"
    by (rule get_response_text)
qed

theorem returns_without_raising_witness:
  "\<exists>answer sent'.
     get_response example_isprintable (cold_for 3 ''Hello'') [] ''hi'' ''Python Helper''
       = (Inr (Some answer), sent')"
proof -
  have "\<forall>sent req completion first rest.
          cold_for 3 ''Hello'' sent req = Returns completion \<longrightarrow> choices completion = first # rest
          \<longrightarrow> content (message first) \<noteq> None"
    by (rule cold_for_text)
  with returns_without_raising
         [of example_isprintable "cold_for 3 ''Hello''" "[]" "''hi''" "''Python Helper''",
          THEN conjunct2]
  show ?thesis by (rule mp)
qed

subsection \<open>When every model fails\<close>

lemma last_models_to_try: "last models_to_try = models_to_try ! 3"
  by (simp add: models_to_try_def)

lemma butlast_models_to_try: "butlast models_to_try = take 3 models_to_try"
  by (simp add: models_to_try_def)

lemma get_response_all_failed:
  assumes known: "MODE_PROMPTS mode = Some config"
    and req: "req = create_request (system_prompt config) user_input"
    and failed: "\<forall>i<length models_to_try.
                   \<exists>e. attempt (create (sent @ map req (take i models_to_try))
                                  (req (models_to_try ! i))) = Inl e"
    and final: "attempt (create (sent @ map req (butlast models_to_try))
                          (req (last models_to_try))) = Inl err"
  shows "get_response isprintable create sent user_input mode =
           (Inr (Some (handle_error isprintable err)), sent @ map req models_to_try)"
proof -
  let ?r = "create_request (system_prompt config) user_input"
  have n: "3 < length models_to_try" by (simp add: length_models_to_try)
  have neq: "\<forall>i<3. models_to_try ! i \<noteq> last models_to_try"
    using n by (simp add: earlier_model_not_last)
  have lst: "models_to_try ! 3 = last models_to_try"
    by (simp add: last_models_to_try)
  have fails: "\<forall>i<3. \<exists>e. attempt (create (sent @ map ?r (take i models_to_try))
                                      (?r (models_to_try ! i))) = Inl e"
    using failed unfolding req by (simp add: length_models_to_try)
  have bad: "attempt (create (sent @ map ?r (take 3 models_to_try)) (?r (models_to_try ! 3))) = Inl err"
    using final unfolding req by (simp add: last_models_to_try butlast_models_to_try)
  have "try_models create (system_prompt config) user_input (last models_to_try) models_to_try sent
          = (Inl err, sent @ map ?r (take (Suc 3) models_to_try))"
    using n neq lst fails bad by (rule try_models_failure)
  then show ?thesis
    unfolding req by (simp add: get_response_def try_body_known [OF known] length_models_to_try)
qed

lemma refusing_all_failed:
  "\<forall>i<length models_to_try.
      \<exists>e. attempt (refusing msg (sent @ map req (take i models_to_try)) (req (models_to_try ! i))) = Inl e"
  by (simp add: refusing_def attempt_def)

lemma refusing_final:
  "attempt (refusing msg (sent @ map req (butlast models_to_try)) (req (last models_to_try)))
     = Inl (Exception msg)"
  by (simp add: refusing_def attempt_def)

text \<open>
  Claim C3. Let the mode be one of the registry. If the attempts for all four models fail
  and the message of the last attempt's error contains \<^verbatim>\<open>model_pending_deploy\<close> or
  \<^verbatim>\<open>not ready for inference\<close>, then \<open>get_response\<close> returns \<open>warming_up_message\<close>, the
  literal of line 115, whatever the user text, the mode and the rest of the message are.
\<close>

theorem warming_up_returned:
  assumes known: "MODE_PROMPTS mode = Some config"
    and req: "req = create_request (system_prompt config) user_input"
    and failed: "\<forall>i<length models_to_try.
                   \<exists>e. attempt (create (sent @ map req (take i models_to_try))
                                  (req (models_to_try ! i))) = Inl e"
    and final: "attempt (create (sent @ map req (butlast models_to_try))
                          (req (last models_to_try))) = Inl err"
    and transient: "str_in ''model_pending_deploy'' (str isprintable err) \<or>
                    str_in ''not ready for inference'' (str isprintable err)"
  shows "get_response isprintable create sent user_input mode =
           (Inr (Some warming_up_message), sent @ map req models_to_try)"
proof -
  from transient have "handle_error isprintable err = warming_up_message"
    by (simp add: handle_error_def)
  with get_response_all_failed [OF known req failed final] show ?thesis by simp
qed

theorem warming_up_returned_witness:
  "get_response example_isprintable (refusing ''Model is model_pending_deploy, retry later'') [] ''hi'' ''General Chat'' =
     (Inr (Some warming_up_message),
      map (create_request (system_prompt (the (MODE_PROMPTS ''General Chat''))) ''hi'') models_to_try)"
proof -
  have known: "MODE_PROMPTS ''General Chat'' = Some (the (MODE_PROMPTS ''General Chat''))"
    by (simp add: MODE_PROMPTS_General_Chat)
  have transient: "str_in ''model_pending_deploy'' (str example_isprintable (Exception ''Model is model_pending_deploy, retry later'')) \<or>
                   str_in ''not ready for inference'' (str example_isprintable (Exception ''Model is model_pending_deploy, retry later''))"
    by simp
  from warming_up_returned [OF known refl refusing_all_failed refusing_final transient]
  show ?thesis by simp
qed

text \<open>
  Claim C4. Let the mode be one of the registry. If the attempts for all four models fail
  and the message of the last attempt's error contains neither transient substring but
  contains a word whose letters, lowered, spell \<^verbatim>\<open>authentication\<close> or \<^verbatim>\<open>unauthorized\<close> (the
  word in any mixture of upper and lower case), then \<open>get_response\<close> returns
  \<open>authentication_error_message\<close>, the literal of line 117.
\<close>

theorem authentication_error_returned:
  assumes known: "MODE_PROMPTS mode = Some config"
    and req: "req = create_request (system_prompt config) user_input"
    and failed: "\<forall>i<length models_to_try.
                   \<exists>e. attempt (create (sent @ map req (take i models_to_try))
                                  (req (models_to_try ! i))) = Inl e"
    and final: "attempt (create (sent @ map req (butlast models_to_try))
                          (req (last models_to_try))) = Inl err"
    and not_transient: "\<not> str_in ''model_pending_deploy'' (str isprintable err)"
                       "\<not> str_in ''not ready for inference'' (str isprintable err)"
    and occurs: "str isprintable err = before @ word @ after"
    and any_case: "lower word = ''authentication'' \<or> lower word = ''unauthorized''"
  shows "get_response isprintable create sent user_input mode =
           (Inr (Some authentication_error_message), sent @ map req models_to_try)"
proof -
  from occurs any_case
  have "str_in ''authentication'' (lower (str isprintable err)) \<or> str_in ''unauthorized'' (lower (str isprintable err))"
    unfolding str_in_lower_iff by blast
  with not_transient have "handle_error isprintable err = authentication_error_message"
    by (simp add: handle_error_def)
  with get_response_all_failed [OF known req failed final] show ?thesis by simp
qed

theorem authentication_error_returned_witness:
  "get_response example_isprintable (refusing ''401 UnAuthorized: bad token'') [] ''hi'' ''General Chat'' =
     (Inr (Some authentication_error_message),
      map (create_request (system_prompt (the (MODE_PROMPTS ''General Chat''))) ''hi'') models_to_try)"
proof -
  have known: "MODE_PROMPTS ''General Chat'' = Some (the (MODE_PROMPTS ''General Chat''))"
    by (simp add: MODE_PROMPTS_General_Chat)
  have n1: "\<not> str_in ''model_pending_deploy'' (str example_isprintable (Exception ''401 UnAuthorized: bad token''))"
    by simp
  have n2: "\<not> str_in ''not ready for inference'' (str example_isprintable (Exception ''401 UnAuthorized: bad token''))"
    by simp
  have occurs: "str example_isprintable (Exception ''401 UnAuthorized: bad token'') = ''401 '' @ ''UnAuthorized'' @ '': bad token''"
    by simp
  have "lower ''UnAuthorized'' = ''unauthorized''" by code_simp
  then have any_case: "lower ''UnAuthorized'' = ''authentication'' \<or> lower ''UnAuthorized'' = ''unauthorized''"
    by simp
  from authentication_error_returned
         [OF known refl refusing_all_failed refusing_final n1 n2 occurs any_case]
  show ?thesis by simp
qed

text \<open>
  Claim C5. Let the mode be one of the registry. If the attempts for all four models fail
  and the message of the last attempt's error contains neither transient substring and,
  lowered, neither \<^verbatim>\<open>authentication\<close> nor \<^verbatim>\<open>unauthorized\<close>, then \<open>get_response\<close> returns
  \<^verbatim>\<open>Error generating response: \<close> followed by that message, a string in which the message
  occurs as it is. The witness is the message \<^verbatim>\<open>rate limit exceeded\<close>.
\<close>

theorem generic_error_returned:
  assumes known: "MODE_PROMPTS mode = Some config"
    and req: "req = create_request (system_prompt config) user_input"
    and failed: "\<forall>i<length models_to_try.
                   \<exists>e. attempt (create (sent @ map req (take i models_to_try))
                                  (req (models_to_try ! i))) = Inl e"
    and final: "attempt (create (sent @ map req (butlast models_to_try))
                          (req (last models_to_try))) = Inl err"
    and not_transient: "\<not> str_in ''model_pending_deploy'' (str isprintable err)"
                       "\<not> str_in ''not ready for inference'' (str isprintable err)"
    and not_authentication: "\<not> str_in ''authentication'' (lower (str isprintable err))"
                            "\<not> str_in ''unauthorized'' (lower (str isprintable err))"
  shows "get_response isprintable create sent user_input mode =
           (Inr (Some (''Error generating response: '' @ str isprintable err)), sent @ map req models_to_try)
         \<and> str_in (str isprintable err) (''Error generating response: '' @ str isprintable err)"
proof -
  from not_transient not_authentication
  have "handle_error isprintable err = ''Error generating response: '' @ str isprintable err"
    by (simp add: handle_error_def)
  with get_response_all_failed [OF known req failed final]
  have "get_response isprintable create sent user_input mode =
           (Inr (Some (''Error generating response: '' @ str isprintable err)), sent @ map req models_to_try)"
    by simp
  moreover have "''Error generating response: '' @ str isprintable err = ''Error generating response: '' @ str isprintable err @ []"
    by simp
  then have "str_in (str isprintable err) (''Error generating response: '' @ str isprintable err)"
    unfolding str_in_iff by blast
  ultimately show ?thesis by simp
qed

theorem generic_error_returned_witness:
  "get_response example_isprintable (refusing ''rate limit exceeded'') [] ''hi'' ''General Chat'' =
     (Inr (Some ''Error generating response: rate limit exceeded''),
      map (create_request (system_prompt (the (MODE_PROMPTS ''General Chat''))) ''hi'') models_to_try)"
proof -
  have known: "MODE_PROMPTS ''General Chat'' = Some (the (MODE_PROMPTS ''General Chat''))"
    by (simp add: MODE_PROMPTS_General_Chat)
  have n1: "\<not> str_in ''model_pending_deploy'' (str example_isprintable (Exception ''rate limit exceeded''))"
    by simp
  have n2: "\<not> str_in ''not ready for inference'' (str example_isprintable (Exception ''rate limit exceeded''))"
    by simp
  have low: "lower ''rate limit exceeded'' = ''rate limit exceeded''" by code_simp
  have n3: "\<not> str_in ''authentication'' (lower (str example_isprintable (Exception ''rate limit exceeded'')))"
    by (simp add: low)
  have n4: "\<not> str_in ''unauthorized'' (lower (str example_isprintable (Exception ''rate limit exceeded'')))"
    by (simp add: low)
  from generic_error_returned
         [OF known refl refusing_all_failed refusing_final n1 n2 n3 n4]
  show ?thesis by simp
qed

lemma warming_up_is_not_authentication: "warming_up_message \<noteq> authentication_error_message"
  by (simp add: warming_up_message_def authentication_error_message_def)

text \<open>
  Claim C10. Let the mode be one of the registry. If the attempts for all four models
  fail and the message of the last attempt's error contains a transient substring and
  also, lowered, \<^verbatim>\<open>authentication\<close> or \<^verbatim>\<open>unauthorized\<close>, then \<open>get_response\<close> returns
  \<open>warming_up_message\<close> and not \<open>authentication_error_message\<close>: the transient test
  comes first.
\<close>

theorem transient_before_authentication:
  assumes known: "MODE_PROMPTS mode = Some config"
    and req: "req = create_request (system_prompt config) user_input"
    and failed: "\<forall>i<length models_to_try.
                   \<exists>e. attempt (create (sent @ map req (take i models_to_try))
                                  (req (models_to_try ! i))) = Inl e"
    and final: "attempt (create (sent @ map req (butlast models_to_try))
                          (req (last models_to_try))) = Inl err"
    and transient: "str_in ''model_pending_deploy'' (str isprintable err) \<or>
                    str_in ''not ready for inference'' (str isprintable err)"
    and authentication: "str_in ''authentication'' (lower (str isprintable err)) \<or>
                         str_in ''unauthorized'' (lower (str isprintable err))"
  shows "get_response isprintable create sent user_input mode =
           (Inr (Some warming_up_message), sent @ map req models_to_try)
         \<and> fst (get_response isprintable create sent user_input mode) \<noteq> Inr (Some authentication_error_message)"
proof -
  from transient have "handle_error isprintable err = warming_up_message"
    by (simp add: handle_error_def)
  with get_response_all_failed [OF known req failed final]
  show ?thesis by (simp add: warming_up_is_not_authentication)
qed

theorem transient_before_authentication_witness:
  "get_response example_isprintable (refusing ''Unauthorized: model_pending_deploy'') [] ''hi'' ''Python Helper'' =
     (Inr (Some warming_up_message),
      map (create_request (system_prompt (the (MODE_PROMPTS ''Python Helper''))) ''hi'') models_to_try)"
proof -
  have known: "MODE_PROMPTS ''Python Helper'' = Some (the (MODE_PROMPTS ''Python Helper''))"
    by (simp add: MODE_PROMPTS_def)
  have transient: "str_in ''model_pending_deploy'' (str example_isprintable (Exception ''Unauthorized: model_pending_deploy'')) \<or>
                   str_in ''not ready for inference'' (str example_isprintable (Exception ''Unauthorized: model_pending_deploy''))"
    by simp
  have low: "lower ''Unauthorized: model_pending_deploy'' = ''unauthorized: model_pending_deploy''"
    by code_simp
  have authentication: "str_in ''authentication'' (lower (str example_isprintable (Exception ''Unauthorized: model_pending_deploy''))) \<or>
                        str_in ''unauthorized'' (lower (str example_isprintable (Exception ''Unauthorized: model_pending_deploy'')))"
    by (simp add: low)
  from transient_before_authentication
         [OF known refl refusing_all_failed refusing_final transient authentication]
  show ?thesis by simp
qed

subsection \<open>The registry\<close>

lemma dom_MODE_PROMPTS:
  "dom MODE_PROMPTS = {''General Chat'', ''Grammar Checker'', ''Paragraph Writer'', ''Python Helper''}"
  unfolding MODE_PROMPTS_def by auto

lemma MODE_PROMPTS_other:
  assumes "mode \<notin> {''General Chat'', ''Grammar Checker'', ''Paragraph Writer'', ''Python Helper''}"
  shows "MODE_PROMPTS mode = None"
  using assms unfolding MODE_PROMPTS_def by simp

lemma MODE_PROMPTS_Grammar_Checker:
  "MODE_PROMPTS ''Grammar Checker'' = Some
     \<lparr>system_prompt = ''You are an expert English grammar teacher. Analyze the user's text for grammar errors, explain the mistakes, and provide corrected versions with clear explanations.'',
      icon = [CHR 0xE2, CHR 0x9C, CHR 0x8F, CHR 0xEF, CHR 0xB8, CHR 0x8F]\<rparr>"
  by (simp add: MODE_PROMPTS_def)

lemma MODE_PROMPTS_Paragraph_Writer:
  "MODE_PROMPTS ''Paragraph Writer'' = Some
     \<lparr>system_prompt = ''You are a creative writing assistant. Help users write well-structured, coherent paragraphs on various topics. Provide multiple style options (formal, casual, academic) when appropriate.'',
      icon = [CHR 0xF0, CHR 0x9F, CHR 0x93, CHR 0x9D]\<rparr>"
  by (simp add: MODE_PROMPTS_def)

lemma MODE_PROMPTS_Python_Helper:
  "MODE_PROMPTS ''Python Helper'' = Some
     \<lparr>system_prompt = ''You are a Python programming tutor. Help users understand Python concepts, debug code, write better code, and follow best practices. Provide clear explanations with examples.'',
      icon = [CHR 0xF0, CHR 0x9F, CHR 0x90, CHR 0x8D]\<rparr>"
  by (simp add: MODE_PROMPTS_def)

text \<open>
  Claim C6. The keys of \<^verbatim>\<open>MODE_PROMPTS\<close> are exactly the four mode names; the subscript
  returns, for each of them, the system prompt and the icon written in lines 60-75; for
  every other string it raises \<^verbatim>\<open>KeyError\<close> (the \<^verbatim>\<open>UnknownMode\<close> of the specification) with
  that string as the key.
\<close>

theorem registry_lookup:
  "dom MODE_PROMPTS = {''General Chat'', ''Grammar Checker'', ''Paragraph Writer'', ''Python Helper''}
   \<and> lookup_mode ''General Chat'' = Inr
         \<lparr>system_prompt = ''You are a helpful and friendly English learning assistant. Help the user with their questions in a clear and engaging way.'',
          icon = [CHR 0xF0, CHR 0x9F, CHR 0x92, CHR 0xAC]\<rparr>
   \<and> lookup_mode ''Grammar Checker'' = Inr
         \<lparr>system_prompt = ''You are an expert English grammar teacher. Analyze the user's text for grammar errors, explain the mistakes, and provide corrected versions with clear explanations.'',
          icon = [CHR 0xE2, CHR 0x9C, CHR 0x8F, CHR 0xEF, CHR 0xB8, CHR 0x8F]\<rparr>
   \<and> lookup_mode ''Paragraph Writer'' = Inr
         \<lparr>system_prompt = ''You are a creative writing assistant. Help users write well-structured, coherent paragraphs on various topics. Provide multiple style options (formal, casual, academic) when appropriate.'',
          icon = [CHR 0xF0, CHR 0x9F, CHR 0x93, CHR 0x9D]\<rparr>
   \<and> lookup_mode ''Python Helper'' = Inr
         \<lparr>system_prompt = ''You are a Python programming tutor. Help users understand Python concepts, debug code, write better code, and follow best practices. Provide clear explanations with examples.'',
          icon = [CHR 0xF0, CHR 0x9F, CHR 0x90, CHR 0x8D]\<rparr>
   \<and> (\<forall>mode. mode \<notin> {''General Chat'', ''Grammar Checker'', ''Paragraph Writer'', ''Python Helper''}
          \<longrightarrow> lookup_mode mode = Inl (KeyError mode))"
proof (intro conjI)
  show "dom MODE_PROMPTS = {''General Chat'', ''Grammar Checker'', ''Paragraph Writer'', ''Python Helper''}"
    by (rule dom_MODE_PROMPTS)
next
  show "\<forall>mode. mode \<notin> {''General Chat'', ''Grammar Checker'', ''Paragraph Writer'', ''Python Helper''}
          \<longrightarrow> lookup_mode mode = Inl (KeyError mode)"
  proof (rule allI, rule impI)
    fix mode :: string
    assume "mode \<notin> {''General Chat'', ''Grammar Checker'', ''Paragraph Writer'', ''Python Helper''}"
    then have "MODE_PROMPTS mode = None" by (rule MODE_PROMPTS_other)
    then show "lookup_mode mode = Inl (KeyError mode)"
      unfolding lookup_mode_def by simp
  qed
qed (simp_all only: lookup_mode_def MODE_PROMPTS_General_Chat MODE_PROMPTS_Grammar_Checker
      MODE_PROMPTS_Paragraph_Writer MODE_PROMPTS_Python_Helper option.case)

theorem registry_lookup_witness:
  "lookup_mode ''Quiz Master'' = Inl (KeyError ''Quiz Master'')
   \<and> lookup_mode ''general chat'' = Inl (KeyError ''general chat'')"
proof -
  note other = registry_lookup [THEN conjunct2, THEN conjunct2, THEN conjunct2, THEN conjunct2,
                 THEN conjunct2, rule_format]
  have "''Quiz Master'' \<notin> {''General Chat'', ''Grammar Checker'', ''Paragraph Writer'', ''Python Helper''}"
    by simp
  then have 1: "lookup_mode ''Quiz Master'' = Inl (KeyError ''Quiz Master'')"
    by (rule other)
  have "''general chat'' \<notin> {''General Chat'', ''Grammar Checker'', ''Paragraph Writer'', ''Python Helper''}"
    by simp
  then have 2: "lookup_mode ''general chat'' = Inl (KeyError ''general chat'')"
    by (rule other)
  from 1 2 show ?thesis by (rule conjI)
qed

subsection \<open>The requests issued\<close>

text \<open>
  Claim C7. For every mode of the registry, every user text and every client, the
  requests \<open>get_response\<close> issues are the requests for the first \<open>k\<close> models of
  \<open>models_to_try\<close>, in order, for some \<open>k\<close> from 1 to 4; each carries exactly two messages,
  the system message with the mode's prompt and then the user message with the user text,
  and \<^verbatim>\<open>max_tokens\<close> 512, \<^verbatim>\<open>temperature\<close> 0.7, \<^verbatim>\<open>top_p\<close> 0.9; only the model differs from one
  attempt to the next.
\<close>

theorem requests_issued:
  assumes known: "MODE_PROMPTS mode = Some config"
  shows "\<exists>k. 1 \<le> k \<and> k \<le> 4 \<and>
           snd (get_response isprintable create sent user_input mode) =
             sent @ map (\<lambda>model_name.
                      \<lparr>model = model_name,
                       messages = [\<lparr>role = ''system'', content = system_prompt config\<rparr>,
                                   \<lparr>role = ''user'', content = user_input\<rparr>],
                       max_tokens = 512, temperature = 0.7, top_p = 0.9\<rparr>)
                    (take k models_to_try)"
proof -
  have "models_to_try \<noteq> []" by (simp add: models_to_try_def)
  from try_models_sent [OF this, of create "system_prompt config" user_input "last models_to_try" sent]
  obtain k where k: "1 \<le> k" "k \<le> length models_to_try"
    and s: "snd (try_models create (system_prompt config) user_input (last models_to_try) models_to_try sent)
         = sent @ map (create_request (system_prompt config) user_input) (take k models_to_try)"
    by blast
  have same: "snd (get_response isprintable create sent user_input mode)
        = snd (try_models create (system_prompt config) user_input (last models_to_try) models_to_try sent)"
    by (simp add: get_response_def try_body_known [OF known] split: prod.splits sum.splits)
  have fn: "create_request (system_prompt config) user_input =
        (\<lambda>model_name.
                      \<lparr>model = model_name,
                       messages = [\<lparr>role = ''system'', content = system_prompt config\<rparr>,
                                   \<lparr>role = ''user'', content = user_input\<rparr>],
                       max_tokens = 512, temperature = 0.7, top_p = 0.9\<rparr>)"
    by (rule ext) (simp add: create_request_def)
  from k s show ?thesis
    unfolding same fn length_models_to_try by blast
qed

theorem requests_issued_witness:
  "\<exists>k. 1 \<le> k \<and> k \<le> 4 \<and>
           snd (get_response example_isprintable (cold_for 1 ''Hello'') [] ''Their going home'' ''Grammar Checker'') =
             [] @ map (\<lambda>model_name.
                      \<lparr>model = model_name,
                       messages = [\<lparr>role = ''system'',
                                    content = system_prompt (the (MODE_PROMPTS ''Grammar Checker''))\<rparr>,
                                   \<lparr>role = ''user'', content = ''Their going home''\<rparr>],
                       max_tokens = 512, temperature = 0.7, top_p = 0.9\<rparr>)
                    (take k models_to_try)"
proof -
  have known: "MODE_PROMPTS ''Grammar Checker'' = Some (the (MODE_PROMPTS ''Grammar Checker''))"
    by (simp add: MODE_PROMPTS_Grammar_Checker)
  from requests_issued [OF known] show ?thesis .
qed

subsection \<open>A mode outside the registry\<close>

text \<open>Facts with which the simplifier evaluates \<open>py_repr\<close> and \<open>lower\<close> on a given string.\<close>

lemma eq_char_of_iff: "c = char_of n \<longleftrightarrow> take_bit 8 n = of_char c"
  using char_of_eq_iff [of n c] by auto

lemmas repr_eval = py_repr_def repr_char_def code_point_def utf8_width_def
  hex2_def hex4_def hex8_def hexdigit_def example_isprintable_def Let_def

lemmas lower_eval = lower_def lower_char_def char_of_eq_iff eq_char_of_iff

lemma get_response_unknown:
  "MODE_PROMPTS mode = None \<Longrightarrow>
   get_response isprintable create sent user_input mode = (Inr (Some (handle_error isprintable (KeyError mode))), sent)"
  by (simp add: get_response_def try_body_unknown)

text \<open>
  Claim C9 says that for a mode name outside the registry \<open>get_response\<close> issues no
  request, does not raise, and returns a string of the form
  \<^verbatim>\<open>Error generating response: ...\<close>. The last part fails. The \<^verbatim>\<open>KeyError\<close> of line 81 goes
  through the same handler as every other exception, its message is the \<^verbatim>\<open>repr\<close> of the
  mode name, and the handler searches that message: for the mode name \<^verbatim>\<open>unauthorized\<close>,
  which is not in the registry, the authentication message is returned.
\<close>

theorem unknown_mode_counterexample:
  "MODE_PROMPTS ''unauthorized'' = None
   \<and> get_response example_isprintable (refusing ''offline'') [] ''hello'' ''unauthorized''
       = (Inr (Some authentication_error_message), [])
   \<and> \<not> prefix ''Error generating response: '' authentication_error_message"
proof (intro conjI)
  show none: "MODE_PROMPTS ''unauthorized'' = None"
    by (simp add: MODE_PROMPTS_def)
  have t1: "\<not> str_in ''model_pending_deploy'' (py_repr example_isprintable ''unauthorized'')"
    by (simp add: repr_eval)
  have t2: "\<not> str_in ''not ready for inference'' (py_repr example_isprintable ''unauthorized'')"
    by (simp add: repr_eval)
  have a: "str_in ''unauthorized'' (lower (py_repr example_isprintable ''unauthorized''))"
    by (simp add: repr_eval lower_eval)
  have "handle_error example_isprintable (KeyError ''unauthorized'') = authentication_error_message"
    by (simp add: handle_error_def t1 t2 a)
  with get_response_unknown [OF none]
  show "get_response example_isprintable (refusing ''offline'') [] ''hello'' ''unauthorized''
       = (Inr (Some authentication_error_message), [])"
    by simp
  show "\<not> prefix ''Error generating response: '' authentication_error_message"
    by (simp add: authentication_error_message_def)
qed

text \<open>
  Claim C9, amended. For every mode name outside the registry, every user text and every
  client, \<open>get_response\<close> issues no request (the list of requests is unchanged), does not
  raise, and returns the string the handler makes of the \<^verbatim>\<open>repr\<close> of the mode name:
  \<^verbatim>\<open>Error generating response: \<close> followed by that \<^verbatim>\<open>repr\<close> when it contains neither
  transient substring and, lowered, neither authentication substring; the warming-up
  message or the authentication message otherwise. This holds whatever the table of
  printable characters is.
\<close>

theorem unknown_mode_classified:
  assumes unknown: "MODE_PROMPTS mode = None"
  shows "get_response isprintable create sent user_input mode =
           (Inr (Some
              (if str_in ''model_pending_deploy'' (py_repr isprintable mode) \<or>
                  str_in ''not ready for inference'' (py_repr isprintable mode)
               then warming_up_message
               else if str_in ''authentication'' (lower (py_repr isprintable mode)) \<or>
                       str_in ''unauthorized'' (lower (py_repr isprintable mode))
               then authentication_error_message
               else ''Error generating response: '' @ py_repr isprintable mode)),
            sent)"
  using get_response_unknown [OF unknown] by (simp add: handle_error_def)

text \<open>
  Two instances. The name \<^verbatim>\<open>Quiz Master\<close> gives the generic message with the name in
  quotes. The name made of U+008A and \<^verbatim>\<open>uthentication\<close> has the \<^verbatim>\<open>repr\<close>
  \<^verbatim>\<open>'\x8authentication'\<close>, because U+008A is not printable, and gives the authentication
  message.
\<close>

theorem unknown_mode_classified_witness:
  "get_response example_isprintable (cold_for 0 ''Hello'') [] ''hello'' ''Quiz Master''
     = (Inr (Some (''Error generating response: '' @ [CHR 0x27] @ ''Quiz Master'' @ [CHR 0x27])), [])
   \<and> get_response example_isprintable (cold_for 0 ''Hello'') [] ''hello''
         ([CHR 0xC2, CHR 0x8A] @ ''uthentication'')
     = (Inr (Some authentication_error_message), [])"
proof (rule conjI)
  have unknown: "MODE_PROMPTS ''Quiz Master'' = None"
    by (simp add: MODE_PROMPTS_def)
  have t1: "\<not> str_in ''model_pending_deploy'' (py_repr example_isprintable ''Quiz Master'')"
    by (simp add: repr_eval)
  have t2: "\<not> str_in ''not ready for inference'' (py_repr example_isprintable ''Quiz Master'')"
    by (simp add: repr_eval)
  have a1: "\<not> str_in ''authentication'' (lower (py_repr example_isprintable ''Quiz Master''))"
    by (simp add: repr_eval lower_eval)
  have a2: "\<not> str_in ''unauthorized'' (lower (py_repr example_isprintable ''Quiz Master''))"
    by (simp add: repr_eval lower_eval)
  have r: "py_repr example_isprintable ''Quiz Master'' = [CHR 0x27] @ ''Quiz Master'' @ [CHR 0x27]"
    by (simp add: repr_eval)
  have "get_response example_isprintable (cold_for 0 ''Hello'') [] ''hello'' ''Quiz Master''
          = (Inr (Some (''Error generating response: '' @ py_repr example_isprintable ''Quiz Master'')), [])"
    using unknown_mode_classified
            [OF unknown, of example_isprintable "cold_for 0 ''Hello''" "[]" "''hello''"]
    by (simp only: t1 t2 a1 a2 simp_thms if_False)
  then show "get_response example_isprintable (cold_for 0 ''Hello'') [] ''hello'' ''Quiz Master''
     = (Inr (Some (''Error generating response: '' @ [CHR 0x27] @ ''Quiz Master'' @ [CHR 0x27])), [])"
    by (simp only: r)
next
  let ?mode = "[CHR 0xC2, CHR 0x8A] @ ''uthentication''"
  have unknown: "MODE_PROMPTS ?mode = None"
    by (simp add: MODE_PROMPTS_def)
  have t1: "\<not> str_in ''model_pending_deploy'' (py_repr example_isprintable ?mode)"
    by (simp add: repr_eval)
  have t2: "\<not> str_in ''not ready for inference'' (py_repr example_isprintable ?mode)"
    by (simp add: repr_eval)
  have a1: "str_in ''authentication'' (lower (py_repr example_isprintable ?mode))"
    by (simp add: repr_eval lower_eval)
  show "get_response example_isprintable (cold_for 0 ''Hello'') [] ''hello'' ?mode
     = (Inr (Some authentication_error_message), [])"
    using unknown_mode_classified
            [OF unknown, of example_isprintable "cold_for 0 ''Hello''" "[]" "''hello''"]
    by (simp only: t1 t2 a1 simp_thms if_False if_True)
qed

subsection \<open>The transcript\<close>

lemma script_run_submit:
  assumes "prompt \<noteq> []"
  shows "\<exists>response sent'.
           get_response isprintable create (st_client s) prompt (st_current_mode s) = (Inr response, sent')
           \<and> st_messages (script_run isprintable create (Chat_input (Some prompt)) s) =
               st_messages s @ [\<lparr>role = ''user'', content = Some prompt\<rparr>,
                                \<lparr>role = ''assistant'', content = response\<rparr>]
           \<and> ((\<forall>sent req completion first rest.
                  create sent req = Returns completion \<longrightarrow> choices completion = first # rest
                  \<longrightarrow> content (message first) \<noteq> None)
                \<longrightarrow> response \<noteq> None)"
proof -
  from get_response_Inr [of isprintable create "st_client s" prompt "st_current_mode s"]
  obtain response sent' where
    returned: "get_response isprintable create (st_client s) prompt (st_current_mode s) = (Inr response, sent')"
    by blast
  with assms have "st_messages (script_run isprintable create (Chat_input (Some prompt)) s) =
               st_messages s @ [\<lparr>role = ''user'', content = Some prompt\<rparr>,
                                \<lparr>role = ''assistant'', content = response\<rparr>]"
    by (simp add: script_run_def)
  moreover have "response \<noteq> None"
    if "\<forall>sent req completion first rest.
          create sent req = Returns completion \<longrightarrow> choices completion = first # rest
          \<longrightarrow> content (message first) \<noteq> None"
    using get_response_text [OF that, of isprintable "st_client s" prompt "st_current_mode s"] returned
    by auto
  ultimately show ?thesis using returned by blast
qed

lemma script_run_other:
  "st_messages (script_run isprintable create (Mode_button mode_name) s) = st_messages s"
  "st_messages (script_run isprintable create (Chat_input None) s) = st_messages s"
  "st_messages (script_run isprintable create (Chat_input (Some [])) s) = st_messages s"
  by (simp_all add: script_run_def split: option.splits)

lemma script_run_clear: "st_messages (script_run isprintable create Clear_chat s) = []"
  by (simp add: script_run_def)

lemma script_runs_no_clear:
  assumes "Clear_chat \<notin> set actions"
  shows "\<exists>responses. length responses = length (submitted actions) \<and>
           st_messages (script_runs isprintable create actions s) =
             st_messages s @
             concat (map2 (\<lambda>prompt response. [\<lparr>role = ''user'', content = Some prompt\<rparr>,
                                                \<lparr>role = ''assistant'', content = response\<rparr>])
                       (submitted actions) responses)"
  using assms
proof (induction actions arbitrary: s)
  case Nil
  then show ?case by simp
next
  case (Cons action rest)
  let ?turns = "\<lambda>prompt response. [\<lparr>role = ''user'', content = Some prompt\<rparr>,
                                     \<lparr>role = ''assistant'', content = (response :: string option)\<rparr>]"
  let ?s1 = "script_run isprintable create action s"
  from Cons.prems have "Clear_chat \<notin> set rest" by simp
  from Cons.IH [OF this, of ?s1] obtain responses where
    len: "length responses = length (submitted rest)" and
    msgs: "st_messages (script_runs isprintable create rest ?s1) =
             st_messages ?s1 @ concat (map2 ?turns (submitted rest) responses)"
    by blast
  show ?case
  proof (cases "\<exists>prompt. action = Chat_input (Some prompt) \<and> prompt \<noteq> []")
    case True
    then obtain prompt where a: "action = Chat_input (Some prompt)" and ne: "prompt \<noteq> []" by blast
    from script_run_submit [OF ne, of isprintable create s] obtain response where
      "st_messages (script_run isprintable create (Chat_input (Some prompt)) s) =
         st_messages s @ ?turns prompt response"
      by blast
    with msgs a have "st_messages (script_runs isprintable create (action # rest) s) =
        st_messages s @ concat (map2 ?turns (prompt # submitted rest) (response # responses))"
      by simp
    moreover have "length (response # responses) = length (submitted (action # rest))"
      using len a ne by simp
    moreover have "submitted (action # rest) = prompt # submitted rest"
      using a ne by simp
    ultimately show ?thesis by metis
  next
    case False
    have same: "st_messages ?s1 = st_messages s" and sub: "submitted (action # rest) = submitted rest"
    proof -
      have "st_messages ?s1 = st_messages s \<and> submitted (action # rest) = submitted rest"
      proof (cases action)
        case (Mode_button mode_name)
        then show ?thesis by (simp add: script_run_other)
      next
        case Clear_chat
        with Cons.prems show ?thesis by simp
      next
        case (Chat_input p)
        with False have "p = None \<or> p = Some []" by (cases p) auto
        with Chat_input show ?thesis by (auto simp: script_run_other)
      qed
      then show "st_messages ?s1 = st_messages s" and "submitted (action # rest) = submitted rest"
        by simp_all
    qed
    with msgs len show ?thesis by auto
  qed
qed

lemma script_runs_transcript:
  "\<exists>responses. length responses = length (submitted (since_clear actions)) \<and>
     st_messages (script_runs isprintable create actions s) =
       (if Clear_chat \<in> set actions then [] else st_messages s) @
       concat (map2 (\<lambda>prompt response. [\<lparr>role = ''user'', content = Some prompt\<rparr>,
                                          \<lparr>role = ''assistant'', content = response\<rparr>])
                 (submitted (since_clear actions)) responses)"
proof (induction actions arbitrary: s)
  case Nil
  show ?case by simp
next
  case (Cons action rest)
  show ?case
  proof (cases "Clear_chat \<in> set rest")
    case True
    with Cons.IH [of "script_run isprintable create action s"] show ?thesis by simp
  next
    case False
    show ?thesis
    proof (cases "action = Clear_chat")
      case True
      with False
        script_runs_no_clear [OF False, of isprintable create "script_run isprintable create Clear_chat s"]
      show ?thesis by (simp add: script_run_clear)
    next
      case no_clear: False
      with False have "Clear_chat \<notin> set (action # rest)" by simp
      from script_runs_no_clear [OF this, of isprintable create s] False no_clear
      show ?thesis by simp
    qed
  qed
qed

text \<open>
  Claim C8. A submitted prompt (one that is not empty, line 159) appends to the transcript
  the user turn with the prompt and right after it the assistant turn with what
  \<open>get_response\<close> returned for that prompt and the current mode, and nothing else; what is
  returned is a string whenever the client answers in text. A click on \<^verbatim>\<open>Clear Chat\<close>
  empties the transcript. So after any sequence of interactions the transcript is what it
  was at the start (or nothing, if the chat was cleared) followed by one user turn and one
  assistant turn for each prompt submitted since the last clear, in the order of
  submission, repeated prompts included: no turn is moved, merged or removed except by the
  clear.
\<close>

theorem transcript_chronological:
  "(\<forall>prompt. prompt \<noteq> [] \<longrightarrow>
      (\<exists>response sent'.
          get_response isprintable create (st_client s) prompt (st_current_mode s) = (Inr response, sent')
          \<and> st_messages (script_run isprintable create (Chat_input (Some prompt)) s) =
              st_messages s @ [\<lparr>role = ''user'', content = Some prompt\<rparr>,
                               \<lparr>role = ''assistant'', content = response\<rparr>]
          \<and> ((\<forall>sent req completion first rest.
                 create sent req = Returns completion \<longrightarrow> choices completion = first # rest
                 \<longrightarrow> content (message first) \<noteq> None)
               \<longrightarrow> response \<noteq> None)))
   \<and> st_messages (script_run isprintable create Clear_chat s) = []
   \<and> (\<exists>responses. length responses = length (submitted (since_clear actions)) \<and>
         st_messages (script_runs isprintable create actions s) =
           (if Clear_chat \<in> set actions then [] else st_messages s) @
           concat (map2 (\<lambda>prompt response. [\<lparr>role = ''user'', content = Some prompt\<rparr>,
                                              \<lparr>role = ''assistant'', content = response\<rparr>])
                     (submitted (since_clear actions)) responses))"
proof (intro conjI allI impI)
  fix prompt :: string
  assume "prompt \<noteq> []"
  then show "\<exists>response sent'.
          get_response isprintable create (st_client s) prompt (st_current_mode s) = (Inr response, sent')
          \<and> st_messages (script_run isprintable create (Chat_input (Some prompt)) s) =
              st_messages s @ [\<lparr>role = ''user'', content = Some prompt\<rparr>,
                               \<lparr>role = ''assistant'', content = response\<rparr>]
          \<and> ((\<forall>sent req completion first rest.
                 create sent req = Returns completion \<longrightarrow> choices completion = first # rest
                 \<longrightarrow> content (message first) \<noteq> None)
               \<longrightarrow> response \<noteq> None)"
    by (rule script_run_submit)
next
  show "st_messages (script_run isprintable create Clear_chat s) = []"
    by (rule script_run_clear)
next
  show "\<exists>responses. length responses = length (submitted (since_clear actions)) \<and>
         st_messages (script_runs isprintable create actions s) =
           (if Clear_chat \<in> set actions then [] else st_messages s) @
           concat (map2 (\<lambda>prompt response. [\<lparr>role = ''user'', content = Some prompt\<rparr>,
                                              \<lparr>role = ''assistant'', content = response\<rparr>])
                     (submitted (since_clear actions)) responses)"
    by (rule script_runs_transcript)
qed

theorem transcript_chronological_witness:
  "st_messages (script_run example_isprintable (cold_for 0 ''Hello'') (Chat_input (Some ''hi''))
                  (initial_session [])) =
     [\<lparr>role = ''user'', content = Some ''hi''\<rparr>, \<lparr>role = ''assistant'', content = Some ''Hello''\<rparr>]"
proof -
  note submit = transcript_chronological
                  [of example_isprintable "cold_for 0 ''Hello''" "initial_session []" "[]",
                   THEN conjunct1, rule_format]
  have "''hi'' \<noteq> []" by simp
  from submit [OF this] obtain response sent' where
    returned: "get_response example_isprintable (cold_for 0 ''Hello'') (st_client (initial_session [])) ''hi''
                 (st_current_mode (initial_session [])) = (Inr response, sent')"
    and appended: "st_messages (script_run example_isprintable (cold_for 0 ''Hello'')
                                  (Chat_input (Some ''hi'')) (initial_session [])) =
       st_messages (initial_session []) @
         [\<lparr>role = ''user'', content = Some ''hi''\<rparr>, \<lparr>role = ''assistant'', content = response\<rparr>]"
    by blast
  have "fst (get_response example_isprintable (cold_for 0 ''Hello'') [] ''hi'' ''General Chat'')
          = Inr (Some ''Hello'')"
    by (simp add: get_response_def try_body_known [OF MODE_PROMPTS_General_Chat]
          models_to_try_def cold_for_def attempt_def)
  with returned have "response = Some ''Hello''"
    by (simp add: initial_session_def)
  with appended show ?thesis
    by (simp add: initial_session_def)
qed

end
